theory Spec2Isabelle
  imports Main "HOL-Library.AList"
begin

section \<open>Errors raised by the Python code\<close>

text \<open>
  Every exception the modelled code can raise is a value of this type. The argument of
  \<open>AssertionError\<close> is the message of the failed \<^verbatim>\<open>assert\<close>, the argument of
  \<open>KeyError\<close> the missing key. \<open>ZMQError\<close> is what a socket operation raises when the
  socket is not in the state for it.
\<close>

datatype error =
    AssertionError string
  | TypeError
  | ValueError
  | IndexError
  | KeyError string
  | UniqueViolation
  | OSError
  | KeyboardInterrupt
  | ZMQError

section \<open>The database wrapper: piwheels/db.py\<close>

subsection \<open>Tables\<close>

text \<open>
  \<^verbatim>\<open>PiWheelsDatabase\<close> talks to three tables. Only the columns that the queries of
  db.py name are modelled. A table is the list of its rows, in the order in which an
  unordered \<^verbatim>\<open>SELECT\<close> returns them. \<open>builds.status\<close> is a nullable boolean:
  \<open>None\<close> is SQL's \<^verbatim>\<open>NULL\<close>.
\<close>

record packages_row =
  packages_package :: string
  packages_attempted :: bool

record builds_row =
  build_timestamp :: int
  build_package :: string
  build_status :: "bool option"
  build_time :: int
  build_filesize :: int

record metadata_row =
  metadata_key :: string
  metadata_value :: string

record database =
  packages :: "packages_row list"
  builds :: "builds_row list"
  metadata :: "metadata_row list"

subsection \<open>The fragment of SQL and of the cursor that db.py uses\<close>

text \<open>
  \<^verbatim>\<open>NOT\<close> on a nullable boolean, \<^verbatim>\<open>CASE WHEN c THEN 1 END\<close> (which is
  \<^verbatim>\<open>NULL\<close> unless \<open>c\<close> is true) and \<^verbatim>\<open>COUNT(e)\<close>, which counts the rows where
  \<open>e\<close> is not \<^verbatim>\<open>NULL\<close>; \<^verbatim>\<open>COUNT(*)\<close> counts all rows.
\<close>

definition sql_not :: "bool option \<Rightarrow> bool option" where
  "sql_not c = map_option Not c"

definition case_when_then_1 :: "bool option \<Rightarrow> int option" where
  "case_when_then_1 c = (if c = Some True then Some 1 else None)"

definition sql_count :: "'a option list \<Rightarrow> nat" where
  "sql_count col = length (filter (\<lambda>v. v \<noteq> None) col)"

definition sql_count_star :: "'a list \<Rightarrow> nat" where
  "sql_count_star rows = length rows"

text \<open>
  \<^verbatim>\<open>cursor.fetchone()\<close> is the first row of the result, or Python's \<^verbatim>\<open>None\<close> when
  the result has no row; \<^verbatim>\<open>result[0]\<close> on \<^verbatim>\<open>None\<close> raises \<^verbatim>\<open>TypeError\<close>.
\<close>

definition fetchone :: "'a list \<Rightarrow> 'a option" where
  "fetchone rows = (case rows of [] \<Rightarrow> None | r # _ \<Rightarrow> Some r)"

definition subscript0 :: "'a option \<Rightarrow> error + 'a" where
  "subscript0 result = (case result of None \<Rightarrow> Inl TypeError | Some v \<Rightarrow> Inr v)"

subsection \<open>The methods\<close>

text \<open>
  \<^verbatim>\<open>get_package_summary\<close>: one aggregate row \<open>(success, fail, total)\<close> over the
  builds table. An aggregate without \<^verbatim>\<open>GROUP BY\<close> always has exactly one row, so
  \<^verbatim>\<open>fetchone\<close> returns it.
\<close>

definition get_package_summary :: "database \<Rightarrow> nat \<times> nat \<times> nat" where
  "get_package_summary db =
     (sql_count (map (\<lambda>r. case_when_then_1 (build_status r)) (builds db)),
      sql_count (map (\<lambda>r. case_when_then_1 (sql_not (build_status r))) (builds db)),
      sql_count_star (builds db))"

text \<open>
  \<^verbatim>\<open>get_last_package_built\<close>: the package of the first row of the builds table ordered
  by \<open>build_timestamp\<close> descending, \<^verbatim>\<open>LIMIT 1\<close>; then \<^verbatim>\<open>result[0]\<close>. Among rows
  with equal timestamps SQL fixes no order; the model keeps the table's order.
\<close>

definition get_last_package_built :: "database \<Rightarrow> error + string" where
  "get_last_package_built db =
     subscript0 (fetchone (take 1
       (map build_package (sort_key (\<lambda>r. - build_timestamp r) (builds db)))))"

text \<open>
  \<^verbatim>\<open>add_new_package(package, attempted=False)\<close>: a plain \<^verbatim>\<open>INSERT INTO packages\<close>
  followed by \<^verbatim>\<open>commit\<close>. The schema is created outside db.py; \<open>pk\<close> says whether
  \<open>packages.package\<close> carries the primary key. When it does, inserting a package that
  is already there makes \<^verbatim>\<open>execute\<close> raise, \<^verbatim>\<open>commit\<close> is not reached and the table
  stays as it was. The result is the exception raised, if any, and the table state
  afterwards.
\<close>

definition add_new_package ::
  "bool \<Rightarrow> database \<Rightarrow> string \<Rightarrow> bool \<Rightarrow> error option \<times> database" where
  "add_new_package pk db package attempted =
     (if pk \<and> package \<in> set (map packages_package (packages db))
      then (Some UniqueViolation, db)
      else (None, db\<lparr>packages := packages db @
              [\<lparr>packages_package = package, packages_attempted = attempted\<rparr>]\<rparr>))"

text \<open>
  \<^verbatim>\<open>get_all_packages\<close>. The class body defines this name twice; the second
  definition (the one kept by Python) selects \<open>package\<close> from the packages table and
  yields the column value of every row.
\<close>

definition get_all_packages :: "database \<Rightarrow> string list" where
  "get_all_packages db = map packages_package (packages db)"

text \<open>
  \<^verbatim>\<open>build_active\<close>: the \<open>value\<close> of the metadata rows whose key is \<open>active\<close>, first
  row, then \<^verbatim>\<open>result[0]\<close>.
\<close>

definition build_active :: "database \<Rightarrow> error + string" where
  "build_active db =
     subscript0 (fetchone
       (map metadata_value (filter (\<lambda>r. metadata_key r = ''active'') (metadata db))))"

text \<open>
  The reading of "executing NEWPKG p twice is idempotent": both calls return without an
  exception and the second leaves the number of rows of the packages table as the
  first left it.
\<close>

definition newpkg_twice_ok :: "bool \<Rightarrow> database \<Rightarrow> string \<Rightarrow> bool" where
  "newpkg_twice_ok pk db p =
     (let (e1, db1) = add_new_package pk db p False;
          (e2, db2) = add_new_package pk db1 p False
      in e1 = None \<and> e2 = None \<and> length (packages db2) = length (packages db1))"

definition empty_database :: database where
  "empty_database = \<lparr>packages = [], builds = [], metadata = []\<rparr>"

definition three_builds :: database where
  "three_builds = \<lparr>packages = [], builds =
     [\<lparr>build_timestamp = 1, build_package = ''foo'', build_status = Some True,
        build_time = 5, build_filesize = 10\<rparr>,
      \<lparr>build_timestamp = 2, build_package = ''bar'', build_status = Some False,
        build_time = 7, build_filesize = 0\<rparr>,
      \<lparr>build_timestamp = 3, build_package = ''baz'', build_status = Some True,
        build_time = 9, build_filesize = 20\<rparr>],
     metadata = []\<rparr>"

definition only_pypi_serial :: database where
  "only_pypi_serial = \<lparr>packages = [], builds = [],
     metadata = [\<lparr>metadata_key = ''pypi_serial'', metadata_value = ''0''\<rparr>]\<rparr>"

section \<open>The build slave: piwheels/slave/__init__.py\<close>

subsection \<open>Values on the wire\<close>

text \<open>
  The request/reply socket carries JSON documents (\<^verbatim>\<open>send_json\<close>, \<^verbatim>\<open>recv_json\<close>).
  \<open>json\<close> is what \<^verbatim>\<open>recv_json\<close> can return: \<^verbatim>\<open>None\<close>, a bool, an int, a str, a
  list or a dict with str keys. JSON numbers with a fraction are left out. A str is the
  list of its code points, which are taken to be below 256. The file-transfer socket
  carries frames of bytes, also lists of characters.
\<close>

datatype json =
    JNull
  | JBool bool
  | JInt int
  | JStr string
  | JList "json list"
  | JDict "(string \<times> json) list"

type_synonym bytes = string

subsection \<open>Python's \<^verbatim>\<open>int()\<close> and \<^verbatim>\<open>str()\<close>\<close>

text \<open>
  \<^verbatim>\<open>int(x)\<close> of a str or of bytes strips white space at both ends, takes an optional
  sign and then needs decimal digits, where single underscores may stand between
  digits; anything else is a \<^verbatim>\<open>ValueError\<close>. For bytes the white space is the ASCII
  one; for a str the separators 28 to 31, NEL (133) and the no-break space (160) count
  as well.
\<close>

definition digit_val :: "char \<Rightarrow> nat option" where
  "digit_val c = map_of (zip ''0123456789'' [0, 1, 2, 3, 4, 5, 6, 7, 8, 9]) c"

definition is_space_bytes :: "char \<Rightarrow> bool" where
  "is_space_bytes c = ((of_char c :: nat) \<in> {9, 10, 11, 12, 13, 32})"

definition is_space_str :: "char \<Rightarrow> bool" where
  "is_space_str c = (is_space_bytes c \<or> (of_char c :: nat) \<in> {28, 29, 30, 31, 133, 160})"

text \<open>
  \<open>parse_digits need acc s\<close>: the digits of \<open>s\<close> appended to the value \<open>acc\<close> read so
  far; \<open>need\<close> holds at the start and after an underscore, where a digit must follow.
\<close>

fun parse_digits :: "bool \<Rightarrow> nat \<Rightarrow> string \<Rightarrow> nat option" where
  "parse_digits need acc [] = (if need then None else Some acc)"
| "parse_digits need acc (c # cs) =
     (case digit_val c of
        Some d \<Rightarrow> parse_digits False (10 * acc + d) cs
      | None \<Rightarrow> if c = CHR ''_'' \<and> \<not> need then parse_digits True acc cs else None)"

definition strip :: "(char \<Rightarrow> bool) \<Rightarrow> string \<Rightarrow> string" where
  "strip sp s = rev (dropWhile sp (rev (dropWhile sp s)))"

definition int_of_text :: "(char \<Rightarrow> bool) \<Rightarrow> string \<Rightarrow> error + int" where
  "int_of_text sp s =
     (let t = strip sp s;
          (neg, ds) = (case t of
                         c # r \<Rightarrow> if c = CHR ''-'' then (True, r)
                                  else if c = CHR ''+'' then (False, r) else (False, t)
                       | [] \<Rightarrow> (False, t))
      in case parse_digits True 0 ds of
           None \<Rightarrow> Inl ValueError
         | Some n \<Rightarrow> Inr (if neg then - int n else int n))"

definition int_of_bytes :: "bytes \<Rightarrow> error + int" where
  "int_of_bytes b = int_of_text is_space_bytes b"

text \<open>\<^verbatim>\<open>int(x)\<close> for a value received as JSON.\<close>

fun py_int :: "json \<Rightarrow> error + int" where
  "py_int (JInt n) = Inr n"
| "py_int (JBool b) = Inr (if b then 1 else 0)"
| "py_int (JStr s) = int_of_text is_space_str s"
| "py_int JNull = Inl TypeError"
| "py_int (JList xs) = Inl TypeError"
| "py_int (JDict kvs) = Inl TypeError"

text \<open>\<^verbatim>\<open>str(n)\<close> for an int: its decimal digits, with a minus sign when negative.\<close>

fun str_of_nat :: "nat \<Rightarrow> string" where
  "str_of_nat n =
     (if n < 10 then [''0123456789'' ! n]
      else str_of_nat (n div 10) @ [''0123456789'' ! (n mod 10)])"

declare str_of_nat.simps [simp del]

definition str_of_int :: "int \<Rightarrow> string" where
  "str_of_int i = (if i < 0 then CHR ''-'' # str_of_nat (nat (- i)) else str_of_nat (nat i))"

text \<open>
  \<^verbatim>\<open>reply, *args = queue.recv_json()\<close>: the value is iterated; its first element is
  the reply and the others are the arguments. An empty sequence raises
  \<^verbatim>\<open>ValueError\<close>, a value that cannot be iterated raises \<^verbatim>\<open>TypeError\<close>. A str
  iterates over its characters and a dict over its keys.
\<close>

fun py_iter :: "json \<Rightarrow> error + json list" where
  "py_iter (JList xs) = Inr xs"
| "py_iter (JStr s) = Inr (map (\<lambda>c. JStr [c]) s)"
| "py_iter (JDict kvs) = Inr (map (\<lambda>kv. JStr (fst kv)) kvs)"
| "py_iter JNull = Inl TypeError"
| "py_iter (JBool b) = Inl TypeError"
| "py_iter (JInt n) = Inl TypeError"

definition unpack_head :: "json \<Rightarrow> error + json \<times> json list" where
  "unpack_head v =
     (case py_iter v of
        Inl e \<Rightarrow> Inl e
      | Inr [] \<Rightarrow> Inl ValueError
      | Inr (reply # args) \<Rightarrow> Inr (reply, args))"

subsection \<open>The builder\<close>

text \<open>
  \<^verbatim>\<open>PiWheelsBuilder\<close> lives in the module \<^verbatim>\<open>.builder\<close>; the slave only reads the
  attributes below. A \<open>wheel\<close> is one element of \<^verbatim>\<open>builder.files\<close>;
  \<open>wheel_bytes\<close> is what reading the file opened by \<^verbatim>\<open>pkg.open()\<close> gives. The
  attribute \<^verbatim>\<open>output\<close> is the field \<open>output_log\<close>. The type of \<open>duration\<close> is
  the builder's business and stays a type parameter. The slave is parameterised by
  \<open>build\<close>, which maps the two arguments of \<^verbatim>\<open>BUILD\<close> to the builder as it is
  after \<^verbatim>\<open>PiWheelsBuilder(package, version)\<close> and \<^verbatim>\<open>builder.build()\<close>.
\<close>

record wheel =
  filename :: string
  filesize :: int
  filehash :: string
  package_version_tag :: string
  py_version_tag :: string
  abi_tag :: string
  platform_tag :: string
  wheel_bytes :: bytes

record 'd builder =
  package :: json
  version :: json
  status :: bool
  duration :: 'd
  output_log :: string
  files :: "wheel list"

type_synonym wheel_info = "int \<times> string \<times> string \<times> string \<times> string \<times> string"

definition wheel_info :: "wheel \<Rightarrow> wheel_info" where
  "wheel_info pkg =
     (filesize pkg, filehash pkg, package_version_tag pkg, py_version_tag pkg,
      abi_tag pkg, platform_tag pkg)"

text \<open>
  The dict comprehension \<^verbatim>\<open>{pkg.filename: (...) for pkg in builder.files}\<close>. A
  Python dict keeps its keys in the order of their first insertion and a later value
  for a key already present replaces the earlier one; \<open>AList.update\<close> does the same on
  an association list.
\<close>

definition files_dict :: "wheel list \<Rightarrow> (string \<times> wheel_info) list" where
  "files_dict fs = fold (\<lambda>pkg d. AList.update (filename pkg) (wheel_info pkg) d) fs []"

subsection \<open>Requests, state\<close>

datatype 'd request =
    HELLO
  | IDLE
  | BUILT json json bool 'd string "(string \<times> wheel_info) list"
  | SENT
  | BYE

record 'd slave =
  slave_id :: "int option"
  builder :: "'d builder option"
  request :: "'d request"

subsection \<open>\<^verbatim>\<open>transfer\<close>: the file upload\<close>

text \<open>
  How a call of \<^verbatim>\<open>transfer\<close>, or one pass of its loop, ends: it returns, it raises,
  or it waits in \<^verbatim>\<open>recv_multipart\<close> for a message that never comes.
\<close>

datatype outcome = Returned | Raised error | Waiting

text \<open>
  \<^verbatim>\<open>f.seek(offset)\<close> followed by \<^verbatim>\<open>f.read(size)\<close> on a file with the bytes
  \<open>dat\<close>: a negative offset raises, a negative size reads up to the end of the file,
  and reading at or past the end gives no bytes.
\<close>

definition seek_read :: "bytes \<Rightarrow> int \<Rightarrow> int \<Rightarrow> bytes" where
  "seek_read dat off sz =
     (if sz < 0 then drop (nat off) dat else take (nat sz) (drop (nat off) dat))"

text \<open>
  The \<^verbatim>\<open>FETCH\<close> branch: \<^verbatim>\<open>offset, size = args\<close> needs exactly two frames, then
  \<^verbatim>\<open>int(args[0])\<close>, the seek, \<^verbatim>\<open>int(args[1])\<close>, the read, in this order. The result
  is the \<^verbatim>\<open>CHUNK\<close> message sent.
\<close>

definition fetch_chunk :: "bytes \<Rightarrow> bytes list \<Rightarrow> error + bytes list" where
  "fetch_chunk dat args =
     (case args of
        [a0, a1] \<Rightarrow>
          (case int_of_bytes a0 of
             Inl e \<Rightarrow> Inl e
           | Inr off \<Rightarrow>
               if off < 0 then Inl OSError
               else (case int_of_bytes a1 of
                       Inl e \<Rightarrow> Inl e
                     | Inr sz \<Rightarrow> Inr [''CHUNK'', a0, seek_read dat off sz]))
      | _ \<Rightarrow> Inl ValueError)"

text \<open>
  The loop of \<^verbatim>\<open>transfer\<close>, run against the behaviour of the master on the transfer
  socket: one event per pass, saying whether \<^verbatim>\<open>queue.poll(timeout)\<close> found a message
  waiting and which frames \<^verbatim>\<open>recv_multipart\<close> then returned. When no event is left
  the poll times out, \<^verbatim>\<open>HELLO\<close> is sent and the receive waits for ever. The result is
  the list of messages sent and how the call ended.
\<close>

type_synonym dealer_event = "bool \<times> bytes list"

fun transfer_loop ::
  "int \<Rightarrow> bytes \<Rightarrow> nat \<Rightarrow> dealer_event list \<Rightarrow> bytes list list \<times> outcome" where
  "transfer_loop sid dat timeout [] = ([[''HELLO'', str_of_int sid]], Waiting)"
| "transfer_loop sid dat timeout ((ready, msg) # evs) =
     (let hello = (if ready then [] else [[''HELLO'', str_of_int sid]]);
          timeout' = (if ready then timeout else 5000)
      in case msg of
           [] \<Rightarrow> (hello, Raised ValueError)
         | req # args \<Rightarrow>
             if req = ''DONE'' then (hello, Returned)
             else if req = ''FETCH'' then
               (case fetch_chunk dat args of
                  Inl e \<Rightarrow> (hello, Raised e)
                | Inr chunk \<Rightarrow>
                    (let (sent, out) = transfer_loop sid dat timeout' evs
                     in (hello @ chunk # sent, out)))
             else
               (let (sent, out) = transfer_loop sid dat timeout' evs
                in (hello @ sent, out)))"

definition transfer :: "int \<Rightarrow> wheel \<Rightarrow> dealer_event list \<Rightarrow> bytes list list \<times> outcome" where
  "transfer sid pkg evs = transfer_loop sid (wheel_bytes pkg) 0 evs"

subsection \<open>\<^verbatim>\<open>main\<close>: the request/reply loop\<close>

text \<open>
  The first lines of the \<^verbatim>\<open>SEND\<close> branch: the four assertions and the search of
  \<^verbatim>\<open>builder.files\<close> for the file named by the argument. The result is the pair
  of arguments, slave id and file, with which \<^verbatim>\<open>transfer\<close> is then called.
\<close>

definition send_lookup :: "'d slave \<Rightarrow> json list \<Rightarrow> error + int \<times> wheel" where
  "send_lookup st args =
     (case slave_id st of
        None \<Rightarrow> Inl (AssertionError ''Send before hello'')
      | Some sid \<Rightarrow>
          (case builder st of
             None \<Rightarrow> Inl (AssertionError ''Send before build / after failed build'')
           | Some b \<Rightarrow>
               if \<not> status b then Inl (AssertionError ''Send after failed build'')
               else if length args \<noteq> 1 then Inl (AssertionError ''Invalid SEND messsage'')
               else (case filter (\<lambda>f. JStr (filename f) = args ! 0) (files b) of
                       [] \<Rightarrow> Inl IndexError
                     | pkg # _ \<Rightarrow> Inr (sid, pkg))))"

text \<open>How one pass of the loop of \<^verbatim>\<open>main\<close> ends, after the reply has arrived.\<close>

datatype 'd step = Continue "'d slave" | Break | Raise error | Stuck

text \<open>
  The body of the loop after \<^verbatim>\<open>recv_json\<close> returned \<open>msg\<close>. \<open>evs\<close> is the
  behaviour of the master on the transfer socket, should this pass call
  \<^verbatim>\<open>transfer\<close>.
\<close>

definition handle_reply ::
  "(json \<Rightarrow> json \<Rightarrow> 'd builder) \<Rightarrow> 'd slave \<Rightarrow> json \<Rightarrow> dealer_event list \<Rightarrow> 'd step" where
  "handle_reply build st msg evs =
     (case unpack_head msg of
        Inl e \<Rightarrow> Raise e
      | Inr (reply, args) \<Rightarrow>
          if reply = JStr ''HELLO'' then
            (if slave_id st \<noteq> None then Raise (AssertionError ''Duplicate hello'')
             else if length args \<noteq> 1 then Raise (AssertionError ''Invalid HELLO message'')
             else (case py_int (args ! 0) of
                     Inl e \<Rightarrow> Raise e
                   | Inr i \<Rightarrow> Continue (st\<lparr>slave_id := Some i, request := IDLE\<rparr>)))
          else if reply = JStr ''SLEEP'' then
            (if slave_id st = None then Raise (AssertionError ''Sleep before hello'')
             else if length args \<noteq> 0 then Raise (AssertionError ''Invalid SLEEP message'')
             else Continue (st\<lparr>request := IDLE\<rparr>))
          else if reply = JStr ''BUILD'' then
            (if slave_id st = None then Raise (AssertionError ''Build before hello'')
             else if builder st \<noteq> None then Raise (AssertionError ''Last build still exists'')
             else if length args \<noteq> 2 then Raise (AssertionError ''Invalid BUILD message'')
             else (let b = build (args ! 0) (args ! 1)
                   in Continue (st\<lparr>builder := Some b,
                        request := BUILT (package b) (version b) (status b) (duration b)
                                     (output_log b) (files_dict (files b))\<rparr>)))
          else if reply = JStr ''SEND'' then
            (case send_lookup st args of
               Inl e \<Rightarrow> Raise e
             | Inr (sid, pkg) \<Rightarrow>
                 (case snd (transfer sid pkg evs) of
                    Returned \<Rightarrow> Continue (st\<lparr>request := SENT\<rparr>)
                  | Raised e \<Rightarrow> Raise e
                  | Waiting \<Rightarrow> Stuck))
          else if reply = JStr ''DONE'' then
            (if slave_id st = None then Raise (AssertionError ''Okay before hello'')
             else if builder st = None then Raise (AssertionError ''Okay before build'')
             else if length args \<noteq> 0 then Raise (AssertionError ''Invalid DONE message'')
             else Continue (st\<lparr>builder := None, request := IDLE\<rparr>))
          else if reply = JStr ''BYE'' then Break
          else Raise (AssertionError ''Invalid message from master''))"

text \<open>
  The request/reply socket is a \<^verbatim>\<open>zmq.REQ\<close> socket: requests and replies alternate in
  strict lock step. It is \<open>Ready\<close> to send when it is fresh or a reply has been
  received, and \<open>Awaiting\<close> once a request went out whose reply has not yet been
  received.
\<close>

datatype req_state = Ready | Awaiting

text \<open>
  \<^verbatim>\<open>queue.send_json(request)\<close>: the request, all of whose parts are JSON values, is
  serialised and handed to the socket, which then awaits the reply. On a socket that
  still awaits a reply the send raises and nothing is sent. The result is the exception
  or the new state of the socket.
\<close>

definition send_json :: "req_state \<Rightarrow> error + req_state" where
  "send_json sock = (case sock of Ready \<Rightarrow> Inr Awaiting | Awaiting \<Rightarrow> Inl ZMQError)"

text \<open>
  What happens in one call of \<^verbatim>\<open>queue.recv_json()\<close>, as far as the master and the
  world outside decide it: a reply arrives and is decoded (it comes with the master's
  behaviour on the transfer socket while the reply is handled); a message arrives that
  is not a JSON document; or an exception is raised inside the call while it still
  waits, such as the \<^verbatim>\<open>KeyboardInterrupt\<close> of an interrupt from the keyboard.
\<close>

datatype master_event =
    Reply json "dealer_event list"
  | Undecodable
  | Recv_raises error

text \<open>
  \<^verbatim>\<open>queue.recv_json()\<close> on the awaiting socket: the value returned or the exception
  raised, and the state of the socket afterwards. A message that arrived leaves the
  socket ready to send, also when decoding it raises \<^verbatim>\<open>ValueError\<close>; an exception
  raised while waiting leaves the socket awaiting its reply.
\<close>

fun recv_json :: "master_event \<Rightarrow> (error + json \<times> dealer_event list) \<times> req_state" where
  "recv_json (Reply msg evs) = (Inr (msg, evs), Ready)"
| "recv_json Undecodable = (Inl ValueError, Ready)"
| "recv_json (Recv_raises e) = (Inl e, Awaiting)"

text \<open>
  How a session ends. \<open>Closed exc\<close>: the \<^verbatim>\<open>finally\<close> block ran to its end, the socket
  is closed; \<open>exc\<close> is the exception that left the loop, \<open>None\<close> after \<^verbatim>\<open>break\<close>.
  \<open>Aborted exc e\<close>: the \<^verbatim>\<open>finally\<close> block itself raised \<open>e\<close> in its first
  statement, so that \<^verbatim>\<open>queue.close()\<close> and \<^verbatim>\<open>ctx.term()\<close> were not reached.
  \<open>Blocked\<close>: the slave waits for ever for a message.
\<close>

datatype session_end = Closed "error option" | Aborted "error option" error | Blocked

text \<open>
  The \<^verbatim>\<open>finally\<close> block: \<^verbatim>\<open>queue.send_json(['BYE'])\<close>, then \<^verbatim>\<open>queue.close()\<close> and
  \<^verbatim>\<open>ctx.term()\<close>. The result is the list of requests it sent and the end of the
  session.
\<close>

definition finally_block :: "req_state \<Rightarrow> error option \<Rightarrow> 'd request list \<times> session_end" where
  "finally_block sock exc =
     (case send_json sock of
        Inl e \<Rightarrow> ([], Aborted exc e)
      | Inr sock' \<Rightarrow> ([BYE], Closed exc))"

text \<open>
  The \<^verbatim>\<open>try\<close> statement of \<^verbatim>\<open>main\<close> from a given state of the socket and of the
  slave, against the list of events of the calls of \<^verbatim>\<open>recv_json\<close>. Each pass sends the
  pending request and receives; when no event is left the slave waits in
  \<^verbatim>\<open>recv_json\<close> for ever. Leaving the loop, by \<^verbatim>\<open>break\<close> or by an exception raised
  by \<^verbatim>\<open>send_json\<close>, by \<^verbatim>\<open>recv_json\<close> or while the reply is handled, runs the
  \<^verbatim>\<open>finally\<close> block. The result is the list of requests sent on the request/reply
  socket and how the session ended.
\<close>

fun main_loop ::
  "(json \<Rightarrow> json \<Rightarrow> 'd builder) \<Rightarrow> req_state \<Rightarrow> 'd slave \<Rightarrow> master_event list
     \<Rightarrow> 'd request list \<times> session_end" where
  "main_loop build sock st [] =
     (case send_json sock of
        Inl e \<Rightarrow> finally_block sock (Some e)
      | Inr sock1 \<Rightarrow> ([request st], Blocked))"
| "main_loop build sock st (ev # rest) =
     (case send_json sock of
        Inl e \<Rightarrow> finally_block sock (Some e)
      | Inr sock1 \<Rightarrow>
          (case recv_json ev of
             (Inl e, sock2) \<Rightarrow>
               (let (sent, fin) = finally_block sock2 (Some e) in (request st # sent, fin))
           | (Inr (msg, evs), sock2) \<Rightarrow>
               (case handle_reply build st msg evs of
                  Continue st' \<Rightarrow>
                    (let (sent, fin) = main_loop build sock2 st' rest
                     in (request st # sent, fin))
                | Break \<Rightarrow>
                    (let (sent, fin) = finally_block sock2 None in (request st # sent, fin))
                | Raise e \<Rightarrow>
                    (let (sent, fin) = finally_block sock2 (Some e)
                     in (request st # sent, fin))
                | Stuck \<Rightarrow> ([request st], Blocked))))"

text \<open>\<^verbatim>\<open>main\<close>: a fresh socket, no slave id, no builder, and \<^verbatim>\<open>HELLO\<close> to send.\<close>

definition main ::
  "(json \<Rightarrow> json \<Rightarrow> 'd builder) \<Rightarrow> master_event list \<Rightarrow> 'd request list \<times> session_end" where
  "main build events =
     main_loop build Ready \<lparr>slave_id = None, builder = None, request = HELLO\<rparr> events"

definition example_wheel :: wheel where
  "example_wheel =
     \<lparr>filename = ''foo-0.1-cp34-cp34m-linux_armv7l.whl'', filesize = 8, filehash = ''abc'',
      package_version_tag = ''0.1'', py_version_tag = ''cp34'', abi_tag = ''cp34m'',
      platform_tag = ''linux_armv7l'', wheel_bytes = ''PK345678''\<rparr>"

definition example_build :: "json \<Rightarrow> json \<Rightarrow> nat builder" where
  "example_build p v =
     \<lparr>package = p, version = v, status = True, duration = 300, output_log = ''log'',
      files = [example_wheel]\<rparr>"

definition hello_reply :: master_event where
  "hello_reply = Reply (JList [JStr ''HELLO'', JInt 1]) []"

definition bye_reply :: master_event where
  "bye_reply = Reply (JList [JStr ''BYE'']) []"

definition idle_slave :: "nat slave" where
  "idle_slave = \<lparr>slave_id = Some 1, builder = None, request = IDLE\<rparr>"

definition built_slave :: "nat slave" where
  "built_slave =
     \<lparr>slave_id = Some 1, builder = Some (example_build (JStr ''foo'') (JStr ''0.1'')),
      request = BUILT (JStr ''foo'') (JStr ''0.1'') True 300 ''log''
        (files_dict [example_wheel])\<rparr>"

section \<open>The index scribe\<close>

text \<open>
  The scribe (piwheels/master/index_scribe.py) is not among the sources at hand; its
  tests (tests/master/test_index_scribe.py) are. This section models the two messages
  \<^verbatim>\<open>HOME\<close> and \<^verbatim>\<open>SEARCH\<close> from the interface description of the scribe, read
  together with those tests.
\<close>

subsection \<open>Python values and their JSON form\<close>

text \<open>
  Modelled from the spec: the payloads of the scribe's messages, which arrive as pickled
  Python objects. \<open>pyval\<close> has the values the description and the tests use: names,
  counts, tuples and lists of them, dicts with str keys, and a complex number as the one
  kind of value that JSON cannot express.
\<close>

datatype pyval =
    PNone
  | PBool bool
  | PInt int
  | PStr string
  | PComplex int int
  | PTuple "pyval list"
  | PList "pyval list"
  | PDict "(string \<times> pyval) list"

text \<open>
  Modelled from the spec: the serialisation that writes \<^verbatim>\<open>packages.json\<close> ("an array
  of [name, count] pairs; non-serializable values fail the write"). Tuples and lists
  become arrays, in order; a complex number raises \<^verbatim>\<open>TypeError\<close>, as the test
  expects.
\<close>

fun to_json :: "pyval \<Rightarrow> error + json"
  and to_json_list :: "pyval list \<Rightarrow> error + json list"
  and to_json_items :: "(string \<times> pyval) list \<Rightarrow> error + (string \<times> json) list" where
  "to_json PNone = Inr JNull"
| "to_json (PBool b) = Inr (JBool b)"
| "to_json (PInt n) = Inr (JInt n)"
| "to_json (PStr s) = Inr (JStr s)"
| "to_json (PComplex re im) = Inl TypeError"
| "to_json (PTuple xs) = (case to_json_list xs of Inl e \<Rightarrow> Inl e | Inr js \<Rightarrow> Inr (JList js))"
| "to_json (PList xs) = (case to_json_list xs of Inl e \<Rightarrow> Inl e | Inr js \<Rightarrow> Inr (JList js))"
| "to_json (PDict kvs) = (case to_json_items kvs of Inl e \<Rightarrow> Inl e | Inr js \<Rightarrow> Inr (JDict js))"
| "to_json_list [] = Inr []"
| "to_json_list (x # xs) =
     (case to_json x of
        Inl e \<Rightarrow> Inl e
      | Inr j \<Rightarrow> (case to_json_list xs of Inl e \<Rightarrow> Inl e | Inr js \<Rightarrow> Inr (j # js)))"
| "to_json_items [] = Inr []"
| "to_json_items (kv # kvs) =
     (case to_json (snd kv) of
        Inl e \<Rightarrow> Inl e
      | Inr j \<Rightarrow> (case to_json_items kvs of Inl e \<Rightarrow> Inl e | Inr js \<Rightarrow> Inr ((fst kv, j) # js)))"

text \<open>
  Modelled from the spec: "a value that cannot be serialized", a value with a complex
  number in it.
\<close>

fun serializable :: "pyval \<Rightarrow> bool"
  and serializable_list :: "pyval list \<Rightarrow> bool"
  and serializable_items :: "(string \<times> pyval) list \<Rightarrow> bool" where
  "serializable PNone = True"
| "serializable (PBool b) = True"
| "serializable (PInt n) = True"
| "serializable (PStr s) = True"
| "serializable (PComplex re im) = False"
| "serializable (PTuple xs) = serializable_list xs"
| "serializable (PList xs) = serializable_list xs"
| "serializable (PDict kvs) = serializable_items kvs"
| "serializable_list [] = True"
| "serializable_list (x # xs) = (serializable x \<and> serializable_list xs)"
| "serializable_items [] = True"
| "serializable_items (kv # kvs) = (serializable (snd kv) \<and> serializable_items kvs)"

text \<open>
  Modelled from the spec: reading a JSON document back (\<^verbatim>\<open>json.load\<close> in the test):
  an array becomes a list.
\<close>

fun from_json :: "json \<Rightarrow> pyval"
  and from_json_list :: "json list \<Rightarrow> pyval list"
  and from_json_items :: "(string \<times> json) list \<Rightarrow> (string \<times> pyval) list" where
  "from_json JNull = PNone"
| "from_json (JBool b) = PBool b"
| "from_json (JInt n) = PInt n"
| "from_json (JStr s) = PStr s"
| "from_json (JList js) = PList (from_json_list js)"
| "from_json (JDict kvs) = PDict (from_json_items kvs)"
| "from_json_list [] = []"
| "from_json_list (j # js) = from_json j # from_json_list js"
| "from_json_items [] = []"
| "from_json_items (kv # kvs) = (fst kv, from_json (snd kv)) # from_json_items kvs"

subsection \<open>The output tree and the atomic write\<close>

text \<open>
  Modelled from the spec: the published output tree, a map from paths below the output
  root to file contents. A file is an HTML text, a complete JSON document, or the
  truncated text that an interrupted serialisation leaves behind.
\<close>

type_synonym path = string

datatype document = Html string | Json json | Truncated

text \<open>Modelled from the spec: the output tree, \<open>None\<close> where no file is.\<close>

type_synonym tree = "path \<Rightarrow> document option"

text \<open>
  Modelled from the spec: "Every index write lands on a sibling temporary path and is
  renamed over the final path"; on an error "the write is aborted, no partial file is
  published". \<open>written\<close> is what the writer put into the temporary file and the
  exception it raised, if any. The result lists the states of the tree that a reader
  can observe, the last one being the state afterwards, and the exception. \<open>tmp\<close> is
  the temporary path, chosen by the environment.
\<close>

definition atomic_replace ::
  "path \<Rightarrow> path \<Rightarrow> document \<times> error option \<Rightarrow> tree \<Rightarrow> tree list \<times> error option" where
  "atomic_replace tmp final written fs =
     (case snd written of
        Some e \<Rightarrow> ([fs(tmp \<mapsto> fst written), fs(tmp := None)], Some e)
      | None \<Rightarrow> ([fs(tmp \<mapsto> fst written), (fs(tmp := None))(final \<mapsto> fst written)], None))"

subsection \<open>\<^verbatim>\<open>HOME\<close> and \<^verbatim>\<open>SEARCH\<close>\<close>

text \<open>
  Modelled from the spec: "\<^verbatim>\<open>HOME stats\<close> renders the top-level index.html from a
  template using the fields packages_built, files_count, downloads_last_month (missing
  field: fatal error, file not written)". \<open>lookup_fields\<close> fetches the fields in this
  order and raises \<^verbatim>\<open>KeyError\<close> at the first one missing. The text of the template
  around the fields is the parameter \<open>layout\<close>. Rendering happens before anything is
  written, so a failed rendering leaves the temporary file empty.
\<close>

type_synonym stats = "(string \<times> pyval) list"

text \<open>Modelled from the spec: the three fields that the homepage template uses.\<close>

definition homepage_fields :: "string list" where
  "homepage_fields = [''packages_built'', ''files_count'', ''downloads_last_month'']"

text \<open>
  Modelled from the spec: fetching the fields from the stats, "missing field: fatal
  error"; the test expects a \<^verbatim>\<open>KeyError\<close>.
\<close>

fun lookup_fields :: "stats \<Rightarrow> string list \<Rightarrow> error + pyval list" where
  "lookup_fields st [] = Inr []"
| "lookup_fields st (f # fs) =
     (case map_of st f of
        None \<Rightarrow> Inl (KeyError f)
      | Some v \<Rightarrow> (case lookup_fields st fs of Inl e \<Rightarrow> Inl e | Inr vs \<Rightarrow> Inr (v # vs)))"

text \<open>
  Modelled from the spec: the handler of \<^verbatim>\<open>HOME\<close>, an atomic write of the rendered
  template to index.html.
\<close>

definition write_homepage ::
  "(pyval list \<Rightarrow> string) \<Rightarrow> path \<Rightarrow> stats \<Rightarrow> tree \<Rightarrow> tree list \<times> error option" where
  "write_homepage layout tmp st fs =
     atomic_replace tmp ''index.html''
       (case lookup_fields st homepage_fields of
          Inl e \<Rightarrow> (Html [], Some e)
        | Inr vs \<Rightarrow> (Html (layout vs), None)) fs"

text \<open>
  Modelled from the spec: "\<^verbatim>\<open>SEARCH\<close> writes packages.json as an array of [name, count]
  pairs; non-serializable values fail the write".
\<close>

definition write_search_index :: "path \<Rightarrow> pyval \<Rightarrow> tree \<Rightarrow> tree list \<times> error option" where
  "write_search_index tmp search_index fs =
     atomic_replace tmp ''packages.json''
       (case to_json search_index of
          Inl e \<Rightarrow> (Truncated, Some e)
        | Inr j \<Rightarrow> (Json j, None)) fs"

text \<open>
  Modelled from the spec: the messages of the scribe's queue, by verb. The verb
  \<^verbatim>\<open>PKG\<close> needs the database oracle and is left out.
\<close>

datatype index_msg = HOME stats | SEARCH pyval

text \<open>Modelled from the spec: handling one message taken from the queue.\<close>

fun handle_index_msg ::
  "(pyval list \<Rightarrow> string) \<Rightarrow> path \<Rightarrow> index_msg \<Rightarrow> tree \<Rightarrow> tree list \<times> error option" where
  "handle_index_msg layout tmp (HOME st) fs = write_homepage layout tmp st fs"
| "handle_index_msg layout tmp (SEARCH s) fs = write_search_index tmp s fs"

text \<open>
  Modelled from the spec: parsing a file of the tree as JSON, as the test does with
  \<^verbatim>\<open>packages.json\<close>; a file that is missing or is not a complete JSON document does
  not parse.
\<close>

definition json_load :: "document option \<Rightarrow> error + pyval" where
  "json_load d = (case d of Some (Json j) \<Rightarrow> Inr (from_json j) | _ \<Rightarrow> Inl ValueError)"

text \<open>The search index of the tests: a list of (name, count) tuples.\<close>

definition search_pairs :: "(string \<times> int) list \<Rightarrow> pyval" where
  "search_pairs s = PList (map (\<lambda>(name, n). PTuple [PStr name, PInt n]) s)"

definition blank_layout :: "pyval list \<Rightarrow> string" where
  "blank_layout vs = []"

definition empty_tree :: tree where
  "empty_tree = (\<lambda>p. None)"

definition complex_search :: pyval where
  "complex_search =
     PList [PTuple [PStr ''foo'', PInt 10], PTuple [PStr ''bar'', PComplex 1 2]]"

section \<open>Properties of the database wrapper\<close>

text \<open>
  Claim C1. The reply to ALLPKGS, \<^verbatim>\<open>get_all_packages\<close>, has as its elements exactly
  the distinct values of the \<open>package\<close> column of the packages table, and it does not
  depend on the builds table: replacing that table by any other leaves the reply as it
  is.
\<close>

theorem get_all_packages_is_packages_column:
  "set (get_all_packages db) = packages_package ` set (packages db)
   \<and> get_all_packages (db\<lparr>builds := b\<rparr>) = get_all_packages db"
  by (simp add: get_all_packages_def)

text \<open>
  Claim C2, as stated: NEWPKG p twice returns without error both times and keeps the row
  count. It fails on the empty database for the package \<open>foo\<close>, whether or not the
  packages table has its primary key: with the key the second insert raises, without it
  the second insert adds a second row.
\<close>

theorem newpkg_twice_counterexample:
  "\<not> newpkg_twice_ok True empty_database ''foo''
   \<and> \<not> newpkg_twice_ok False empty_database ''foo''"
  by (simp add: newpkg_twice_ok_def add_new_package_def empty_database_def)

text \<open>
  Claim C2, amended. With the primary key on \<open>packages.package\<close>, NEWPKG p on a table
  that does not hold p returns without error and adds exactly one row; a second NEWPKG p
  raises the unique-violation error and leaves the table, hence its row count, as the
  first call left it.
\<close>

theorem add_new_package_twice:
  assumes "p \<notin> set (get_all_packages db)"
  shows "\<exists>db1. add_new_package True db p False = (None, db1)
             \<and> length (packages db1) = Suc (length (packages db))
             \<and> add_new_package True db1 p False = (Some UniqueViolation, db1)"
  using assms by (simp add: add_new_package_def get_all_packages_def)

theorem add_new_package_twice_witness:
  "''foo'' \<notin> set (get_all_packages empty_database)
   \<and> (\<exists>db1. add_new_package True empty_database ''foo'' False = (None, db1)
          \<and> length (packages db1) = Suc (length (packages empty_database))
          \<and> add_new_package True db1 ''foo'' False = (Some UniqueViolation, db1))"
proof -
  have h: "''foo'' \<notin> set (get_all_packages empty_database)"
    by (simp add: get_all_packages_def empty_database_def)
  from add_new_package_twice [OF h] h show ?thesis by blast
qed

lemma sql_count_case_when:
  "sql_count (map (\<lambda>r. case_when_then_1 (f r)) rows)
     = length (filter (\<lambda>r. f r = Some True) rows)"
  by (induction rows) (simp_all add: sql_count_def case_when_then_1_def)

lemma sql_not_true_iff: "sql_not c = Some True \<longleftrightarrow> c = Some False"
  by (cases c) (auto simp: sql_not_def)

lemma length_filter_split_status:
  "\<forall>r \<in> set rows. build_status r \<noteq> None \<Longrightarrow>
   length (filter (\<lambda>r. build_status r = Some True) rows)
     + length (filter (\<lambda>r. build_status r = Some False) rows) = length rows"
  by (induction rows) auto

text \<open>
  Claim C9. When no row of the builds table has a \<^verbatim>\<open>NULL\<close> status,
  \<^verbatim>\<open>get_package_summary\<close> returns the row \<open>(success, fail, total)\<close> in which success
  is the number of rows with status true, fail the number of rows with status false,
  total the number of rows, and success + fail = total.
\<close>

theorem get_package_summary_counts:
  assumes "\<forall>r \<in> set (builds db). build_status r \<noteq> None"
  shows "case get_package_summary db of (n_success, n_fail, n_total) \<Rightarrow>
           n_success = length (filter (\<lambda>r. build_status r = Some True) (builds db))
         \<and> n_fail = length (filter (\<lambda>r. build_status r = Some False) (builds db))
         \<and> n_total = length (builds db)
         \<and> n_success + n_fail = n_total"
  using length_filter_split_status [OF assms]
  by (simp add: get_package_summary_def sql_count_case_when sql_not_true_iff
      sql_count_star_def)

theorem get_package_summary_counts_witness:
  "list_all (\<lambda>r. build_status r \<noteq> None) (builds three_builds)
   \<and> get_package_summary three_builds = (2, 1, 3)"
proof -
  have h: "\<forall>r \<in> set (builds three_builds). build_status r \<noteq> None"
    by (auto simp: three_builds_def)
  have "get_package_summary three_builds = (2, 1, 3)"
    using get_package_summary_counts [OF h]
    by (simp add: three_builds_def split: prod.splits)
  with h show ?thesis by (simp add: list_all_iff)
qed

text \<open>
  Claim C10. On an empty builds table \<^verbatim>\<open>get_last_package_built\<close> does not return:
  \<^verbatim>\<open>fetchone\<close> gives no row and the subscript raises \<^verbatim>\<open>TypeError\<close>. The same holds
  for \<^verbatim>\<open>build_active\<close> when the metadata table has no row with key \<open>active\<close>.
\<close>

theorem fetchone_subscript_raises:
  "(builds db = [] \<longrightarrow> get_last_package_built db = Inl TypeError)
   \<and> ((\<forall>r \<in> set (metadata db). metadata_key r \<noteq> ''active'')
        \<longrightarrow> build_active db = Inl TypeError)"
proof -
  have "filter (\<lambda>r. metadata_key r = ''active'') (metadata db) = []"
    if "\<forall>r \<in> set (metadata db). metadata_key r \<noteq> ''active''"
    using that by (simp add: filter_empty_conv)
  then show ?thesis
    by (simp add: get_last_package_built_def build_active_def fetchone_def subscript0_def)
qed

theorem fetchone_subscript_raises_witness:
  "builds only_pypi_serial = []
   \<and> list_all (\<lambda>r. metadata_key r \<noteq> ''active'') (metadata only_pypi_serial)
   \<and> get_last_package_built only_pypi_serial = Inl TypeError
   \<and> build_active only_pypi_serial = Inl TypeError"
proof -
  have h1: "builds only_pypi_serial = []" by (simp add: only_pypi_serial_def)
  have h2: "\<forall>r \<in> set (metadata only_pypi_serial). metadata_key r \<noteq> ''active''"
    by (simp add: only_pypi_serial_def)
  from fetchone_subscript_raises [of only_pypi_serial] h1 h2 show ?thesis
    by (simp add: list_all_iff)
qed

section \<open>Properties of the build slave\<close>

lemma files_dict_snoc:
  "files_dict (fs @ [p]) = AList.update (filename p) (wheel_info p) (files_dict fs)"
  by (simp add: files_dict_def)

lemma files_dict_Nil: "files_dict [] = []"
  by (simp add: files_dict_def)

lemma files_dict_keys: "fst ` set (files_dict fs) = filename ` set fs"
  by (induction fs rule: rev_induct) (auto simp: files_dict_Nil files_dict_snoc dom_update)

lemma files_dict_lookup_some:
  "f \<in> set fs \<Longrightarrow>
   \<exists>g \<in> set fs. filename g = filename f \<and> map_of (files_dict fs) (filename f) = Some (wheel_info g)"
proof (induction fs rule: rev_induct)
  case Nil
  then show ?case by simp
next
  case (snoc p fs)
  show ?case
  proof (cases "filename p = filename f")
    case True
    then show ?thesis by (auto simp: files_dict_snoc update_conv')
  next
    case False
    with snoc.prems have "f \<in> set fs" by auto
    from snoc.IH [OF this] False show ?thesis
      by (auto simp: files_dict_snoc update_conv')
  qed
qed

lemma files_dict_lookup_distinct:
  "distinct (map filename fs) \<Longrightarrow> f \<in> set fs \<Longrightarrow>
   map_of (files_dict fs) (filename f) = Some (wheel_info f)"
proof (induction fs rule: rev_induct)
  case Nil
  then show ?case by simp
next
  case (snoc p fs)
  show ?case
  proof (cases "f = p")
    case True
    then show ?thesis by (simp add: files_dict_snoc update_conv')
  next
    case False
    with snoc.prems have in_fs: "f \<in> set fs" by auto
    with snoc.prems have "filename p \<noteq> filename f" by auto
    moreover from snoc.prems have "distinct (map filename fs)" by simp
    ultimately show ?thesis using snoc.IH in_fs
      by (simp add: files_dict_snoc update_conv')
  qed
qed

lemma update_fresh_key:
  "k \<notin> fst ` set al \<Longrightarrow> AList.update k v al = al @ [(k, v)]"
  by (induction al) auto

lemma files_dict_distinct:
  "distinct (map filename fs) \<Longrightarrow>
   files_dict fs =
     map (\<lambda>f. (filename f, filesize f, filehash f, package_version_tag f,
                py_version_tag f, abi_tag f, platform_tag f)) fs"
proof (induction fs rule: rev_induct)
  case Nil
  then show ?case by (simp add: files_dict_Nil)
next
  case (snoc p fs)
  from snoc.prems have nin: "filename p \<notin> filename ` set fs"
    and d: "distinct (map filename fs)"
    by simp_all
  from nin have fresh: "filename p \<notin> fst ` set (files_dict fs)"
    by (simp add: files_dict_keys)
  have "files_dict (fs @ [p]) = files_dict fs @ [(filename p, wheel_info p)]"
    by (simp only: files_dict_snoc update_fresh_key [OF fresh])
  with snoc.IH [OF d] show ?case
    by (simp add: wheel_info_def)
qed

lemma handle_reply_Continue_not_BYE:
  "handle_reply build st msg evs = Continue st' \<Longrightarrow> request st' \<noteq> BYE"
  by (auto simp: handle_reply_def Let_def
      split: sum.splits prod.splits if_splits outcome.splits)

lemma send_json_simps [simp]:
  "send_json Ready = Inr Awaiting" "send_json Awaiting = Inl ZMQError"
  by (simp_all add: send_json_def)

lemma finally_block_simps [simp]:
  "finally_block Ready exc = ([BYE], Closed exc)"
  "finally_block Awaiting exc = ([], Aborted exc ZMQError)"
  by (simp_all add: finally_block_def)

lemma main_loop_Cons_Reply:
  "main_loop build Ready st (Reply msg evs # rest) =
     (case handle_reply build st msg evs of
        Continue st' \<Rightarrow>
          (request st # fst (main_loop build Ready st' rest),
           snd (main_loop build Ready st' rest))
      | Break \<Rightarrow> ([request st, BYE], Closed None)
      | Raise e \<Rightarrow> ([request st, BYE], Closed (Some e))
      | Stuck \<Rightarrow> ([request st], Blocked))"
  by (simp split: step.splits prod.splits)

lemma main_loop_Cons_Undecodable:
  "main_loop build Ready st (Undecodable # rest) = ([request st, BYE], Closed (Some ValueError))"
  by simp

lemma main_loop_Cons_Recv_raises:
  "main_loop build Ready st (Recv_raises e # rest) = ([request st], Aborted (Some e) ZMQError)"
  by simp

lemma main_loop_Nil: "main_loop build Ready st [] = ([request st], Blocked)"
  by simp

declare main_loop.simps [simp del]

text \<open>
  The sessions of the model. The first request is the pending one. A session that ends
  with the socket closed has \<^verbatim>\<open>BYE\<close> as its last request and nowhere else; a session
  that ends otherwise has sent no \<^verbatim>\<open>BYE\<close> at all.
\<close>

lemma main_loop_trace:
  "request st \<noteq> BYE \<Longrightarrow>
   (case main_loop build Ready st ins of (sent, fin) \<Rightarrow>
      sent \<noteq> [] \<and> hd sent = request st \<and>
      (case fin of
         Closed exc \<Rightarrow> last sent = BYE \<and> BYE \<notin> set (butlast sent)
       | Aborted exc e \<Rightarrow> BYE \<notin> set sent
       | Blocked \<Rightarrow> BYE \<notin> set sent))"
proof (induction ins arbitrary: st)
  case Nil
  then show ?case by (simp add: main_loop_Nil)
next
  case (Cons ev ins)
  show ?case
  proof (cases ev)
    case (Reply msg evs)
    show ?thesis
    proof (cases "handle_reply build st msg evs")
      case (Continue st')
      then have "request st' \<noteq> BYE" by (rule handle_reply_Continue_not_BYE)
      from Cons.IH [OF this] Cons.prems Continue Reply show ?thesis
        by (auto simp: main_loop_Cons_Reply split: prod.splits session_end.splits)
    next
      case Break
      with Cons.prems Reply show ?thesis by (simp add: main_loop_Cons_Reply)
    next
      case (Raise e)
      with Cons.prems Reply show ?thesis by (simp add: main_loop_Cons_Reply)
    next
      case Stuck
      with Cons.prems Reply show ?thesis by (simp add: main_loop_Cons_Reply)
    qed
  next
    case Undecodable
    with Cons.prems show ?thesis by (simp add: main_loop_Cons_Undecodable)
  next
    case (Recv_raises e)
    with Cons.prems show ?thesis by (simp add: main_loop_Cons_Recv_raises)
  qed
qed

lemma closed_session_ends_bye:
  "case main build events of (sent, fin) \<Rightarrow>
     sent \<noteq> [] \<and> hd sent = HELLO \<and>
     (case fin of
        Closed exc \<Rightarrow> last sent = BYE \<and> BYE \<notin> set (butlast sent)
      | Aborted exc e \<Rightarrow> BYE \<notin> set sent
      | Blocked \<Rightarrow> BYE \<notin> set sent)"
  using main_loop_trace [of "\<lparr>slave_id = None, builder = None, request = HELLO\<rparr>" build events]
  by (simp add: main_def)

lemma main_loop_hd:
  "fst (main_loop build Ready st ins) \<noteq> [] \<and> hd (fst (main_loop build Ready st ins)) = request st"
proof (cases ins)
  case Nil
  then show ?thesis by (simp add: main_loop_Nil)
next
  case (Cons ev rest)
  then show ?thesis
    by (cases ev)
      (simp_all add: main_loop_Cons_Reply main_loop_Cons_Undecodable main_loop_Cons_Recv_raises
        split: step.splits)
qed

text \<open>
  Claim C5. A slave that is registered and has no build in hand, on receiving
  \<^verbatim>\<open>BUILD pkg ver\<close>, runs the build and continues with the request \<^verbatim>\<open>BUILT\<close>
  carrying the builder's package, version, status, duration and output and the dict of
  its files; this is the next request sent. The dict has exactly the produced file
  names as keys, each mapped to the tuple (filesize, filehash, package_version_tag,
  py_version_tag, abi_tag, platform_tag) of a produced file of that name: of the file
  itself when file names are not repeated, and then the dict lists the files in the
  order in which they were produced.
\<close>

theorem build_reply_then_built:
  assumes "slave_id st = Some i" and "builder st = None"
  shows "let b = build pkg ver;
             req = BUILT (package b) (version b) (status b) (duration b) (output_log b)
                     (files_dict (files b))
         in handle_reply build st (JList [JStr ''BUILD'', pkg, ver]) evs
              = Continue (st\<lparr>builder := Some b, request := req\<rparr>)
          \<and> fst (main_loop build Ready st (Reply (JList [JStr ''BUILD'', pkg, ver]) evs # rest)) ! 1
              = req
          \<and> fst ` set (files_dict (files b)) = filename ` set (files b)
          \<and> (\<forall>f \<in> set (files b). \<exists>g \<in> set (files b). filename g = filename f
                \<and> map_of (files_dict (files b)) (filename f)
                    = Some (filesize g, filehash g, package_version_tag g, py_version_tag g,
                            abi_tag g, platform_tag g))
          \<and> (distinct (map filename (files b)) \<longrightarrow>
               (\<forall>f \<in> set (files b).
                  map_of (files_dict (files b)) (filename f)
                    = Some (filesize f, filehash f, package_version_tag f, py_version_tag f,
                            abi_tag f, platform_tag f))
               \<and> files_dict (files b)
                   = map (\<lambda>f. (filename f, filesize f, filehash f, package_version_tag f,
                                py_version_tag f, abi_tag f, platform_tag f)) (files b))"
proof -
  define b where "b = build pkg ver"
  define req where "req = BUILT (package b) (version b) (status b) (duration b) (output_log b)
                     (files_dict (files b))"
  have step: "handle_reply build st (JList [JStr ''BUILD'', pkg, ver]) evs
              = Continue (st\<lparr>builder := Some b, request := req\<rparr>)"
    using assms by (simp add: handle_reply_def unpack_head_def Let_def b_def req_def)
  have "fst (main_loop build Ready st (Reply (JList [JStr ''BUILD'', pkg, ver]) evs # rest))
          = request st # fst (main_loop build Ready (st\<lparr>builder := Some b, request := req\<rparr>) rest)"
    by (simp add: main_loop_Cons_Reply step)
  moreover have "fst (main_loop build Ready (st\<lparr>builder := Some b, request := req\<rparr>) rest) ! 0 = req"
  proof -
    let ?sent = "fst (main_loop build Ready (st\<lparr>builder := Some b, request := req\<rparr>) rest)"
    from main_loop_hd [of build "st\<lparr>builder := Some b, request := req\<rparr>" rest]
    have ne: "?sent \<noteq> []" and "hd ?sent = req" by simp_all
    then show ?thesis by (simp add: hd_conv_nth [OF ne, symmetric])
  qed
  ultimately have next_req:
    "fst (main_loop build Ready st (Reply (JList [JStr ''BUILD'', pkg, ver]) evs # rest)) ! 1 = req"
    by simp
  have some: "\<forall>f \<in> set (files b). \<exists>g \<in> set (files b). filename g = filename f
                \<and> map_of (files_dict (files b)) (filename f)
                    = Some (filesize g, filehash g, package_version_tag g, py_version_tag g,
                            abi_tag g, platform_tag g)"
    using files_dict_lookup_some [of _ "files b"] by (simp add: wheel_info_def)
  have own: "\<forall>f \<in> set (files b).
                  map_of (files_dict (files b)) (filename f)
                    = Some (filesize f, filehash f, package_version_tag f, py_version_tag f,
                            abi_tag f, platform_tag f)"
    if "distinct (map filename (files b))"
    using files_dict_lookup_distinct [OF that] by (simp add: wheel_info_def)
  show ?thesis
    unfolding Let_def b_def [symmetric] req_def [symmetric]
    using step next_req files_dict_keys [of "files b"] some own
      files_dict_distinct [of "files b"]
    by blast
qed

theorem build_reply_then_built_witness:
  "slave_id idle_slave = Some 1 \<and> builder idle_slave = None
   \<and> handle_reply example_build idle_slave (JList [JStr ''BUILD'', JStr ''foo'', JStr ''0.1'']) []
       = Continue built_slave
   \<and> fst (main_loop example_build Ready idle_slave
            [Reply (JList [JStr ''BUILD'', JStr ''foo'', JStr ''0.1'']) []]) ! 1
       = BUILT (JStr ''foo'') (JStr ''0.1'') True 300 ''log''
           [(''foo-0.1-cp34-cp34m-linux_armv7l.whl'',
             8, ''abc'', ''0.1'', ''cp34'', ''cp34m'', ''linux_armv7l'')]
   \<and> map_of (files_dict (files (example_build (JStr ''foo'') (JStr ''0.1''))))
         ''foo-0.1-cp34-cp34m-linux_armv7l.whl''
       = Some (8, ''abc'', ''0.1'', ''cp34'', ''cp34m'', ''linux_armv7l'')"
proof -
  let ?b = "example_build (JStr ''foo'') (JStr ''0.1'')"
  let ?msg = "JList [JStr ''BUILD'', JStr ''foo'', JStr ''0.1'']"
  let ?req = "BUILT (package ?b) (version ?b) (status ?b) (duration ?b) (output_log ?b)
                (files_dict (files ?b))"
  let ?dict = "[(''foo-0.1-cp34-cp34m-linux_armv7l.whl'',
                 8::int, ''abc'', ''0.1'', ''cp34'', ''cp34m'', ''linux_armv7l'')]"
  have h1: "slave_id idle_slave = Some 1" and h2: "builder idle_slave = None"
    by (simp_all add: idle_slave_def)
  have d: "distinct (map filename (files ?b))"
    by (simp add: example_build_def)
  have fs: "files ?b = [example_wheel]"
    by (simp add: example_build_def)
  note inst = build_reply_then_built [OF h1 h2, where build = example_build
      and pkg = "JStr ''foo''" and ver = "JStr ''0.1''" and evs = "[]" and rest = "[]",
      unfolded Let_def]
  from inst have c1: "handle_reply example_build idle_slave ?msg []
      = Continue (idle_slave\<lparr>builder := Some ?b, request := ?req\<rparr>)"
    by blast
  from inst have c2: "fst (main_loop example_build Ready idle_slave [Reply ?msg []]) ! 1 = ?req"
    by blast
  from inst d have "files_dict (files ?b)
      = map (\<lambda>f. (filename f, filesize f, filehash f, package_version_tag f,
                   py_version_tag f, abi_tag f, platform_tag f)) (files ?b)"
    by blast
  then have dict: "files_dict (files ?b) = ?dict"
    by (simp add: fs example_wheel_def)
  have req: "?req = BUILT (JStr ''foo'') (JStr ''0.1'') True 300 ''log'' ?dict"
    unfolding dict by (simp add: example_build_def)
  have "files_dict [example_wheel] = ?dict"
    using dict by (simp only: fs)
  then have st: "idle_slave\<lparr>builder := Some ?b, request := ?req\<rparr> = built_slave"
    unfolding req by (simp add: built_slave_def idle_slave_def)
  have look: "map_of (files_dict (files ?b)) ''foo-0.1-cp34-cp34m-linux_armv7l.whl''
       = Some (8, ''abc'', ''0.1'', ''cp34'', ''cp34m'', ''linux_armv7l'')"
    unfolding dict by simp
  from c1 have "handle_reply example_build idle_slave ?msg [] = Continue built_slave"
    by (simp only: st)
  moreover from c2 have "fst (main_loop example_build Ready idle_slave [Reply ?msg []]) ! 1
       = BUILT (JStr ''foo'') (JStr ''0.1'') True 300 ''log'' ?dict"
    by (simp only: req)
  ultimately show ?thesis using h1 h2 look by blast
qed

text \<open>
  Claim C6: every session begins with \<^verbatim>\<open>HELLO\<close> and, on every way out of the loop,
  ends with \<^verbatim>\<open>BYE\<close> as the last request before the socket is closed. The
  \<^verbatim>\<open>finally\<close> block is there to do so, and does so after \<^verbatim>\<open>break\<close> and after an
  exception raised once a reply has arrived (\<open>closed_session_ends_bye\<close>). It does not
  when the exception is raised inside \<^verbatim>\<open>recv_json\<close>: the master answers \<^verbatim>\<open>HELLO\<close>,
  the slave sends \<^verbatim>\<open>IDLE\<close> and is interrupted from the keyboard while it waits for the
  reply. The socket still awaits that reply, so the \<^verbatim>\<open>send_json\<close> of the
  \<^verbatim>\<open>finally\<close> block raises: the last request sent is \<^verbatim>\<open>IDLE\<close>, no \<^verbatim>\<open>BYE\<close> is
  sent and the socket is not closed.
\<close>

theorem interrupted_recv_sends_no_bye:
  "main example_build [hello_reply, Recv_raises KeyboardInterrupt]
     = ([HELLO, IDLE], Aborted (Some KeyboardInterrupt) ZMQError)"
  by (simp add: main_def hello_reply_def main_loop_Cons_Reply main_loop_Cons_Recv_raises
      handle_reply_def unpack_head_def)

text \<open>
  Claim C7. When the two frames of a \<^verbatim>\<open>FETCH\<close> message read as an offset and a size
  with offset + size within the file, the slave answers with the message \<^verbatim>\<open>CHUNK\<close>
  whose offset frame is the frame received and whose payload is the \<open>size\<close> bytes of
  the file from the offset on; in the loop of \<^verbatim>\<open>transfer\<close> this message is sent in the
  same pass, before the next message is read.
\<close>

theorem fetch_replies_chunk:
  assumes "int_of_bytes a0 = Inr (int off)" and "int_of_bytes a1 = Inr (int sz)"
    and "off + sz \<le> length dat"
  shows "fetch_chunk dat [a0, a1] = Inr [''CHUNK'', a0, take sz (drop off dat)]
       \<and> length (take sz (drop off dat)) = sz
       \<and> transfer_loop sid dat t ((ready, [''FETCH'', a0, a1]) # evs)
           = ((if ready then [] else [[''HELLO'', str_of_int sid]])
                @ [''CHUNK'', a0, take sz (drop off dat)]
                # fst (transfer_loop sid dat (if ready then t else 5000) evs),
              snd (transfer_loop sid dat (if ready then t else 5000) evs))"
proof -
  have chunk: "fetch_chunk dat [a0, a1] = Inr [''CHUNK'', a0, take sz (drop off dat)]"
    using assms by (simp add: fetch_chunk_def seek_read_def)
  have len: "length (take sz (drop off dat)) = sz"
    using assms(3) by simp
  have "transfer_loop sid dat t ((ready, [''FETCH'', a0, a1]) # evs)
           = ((if ready then [] else [[''HELLO'', str_of_int sid]])
                @ [''CHUNK'', a0, take sz (drop off dat)]
                # fst (transfer_loop sid dat (if ready then t else 5000) evs),
              snd (transfer_loop sid dat (if ready then t else 5000) evs))"
    by (simp add: chunk Let_def split: prod.splits)
  with chunk len show ?thesis by blast
qed

theorem fetch_replies_chunk_witness:
  "int_of_bytes ''2'' = Inr (int 2) \<and> int_of_bytes ''3'' = Inr (int 3)
   \<and> 2 + 3 \<le> length ''PK345678''
   \<and> fetch_chunk ''PK345678'' [''2'', ''3''] = Inr [''CHUNK'', ''2'', ''345'']"
proof -
  have h1: "int_of_bytes ''2'' = Inr (int 2)" and h2: "int_of_bytes ''3'' = Inr (int 3)"
    by (simp_all add: int_of_bytes_def int_of_text_def strip_def is_space_bytes_def
        digit_val_def)
  have h3: "2 + 3 \<le> length ''PK345678''" by simp
  from fetch_replies_chunk [OF h1 h2 h3, of 0 0 True "[]"]
  have "fetch_chunk ''PK345678'' [''2'', ''3''] = Inr [''CHUNK'', ''2'', ''345'']"
    by simp
  with h1 h2 h3 show ?thesis by blast
qed

text \<open>
  Claim C8. In a slave that is registered and holds a builder whose status is true, the
  \<^verbatim>\<open>SEND\<close> handler, called with one file name that is a key of the file dict of the
  builder's \<^verbatim>\<open>BUILT\<close> message, passes its four assertions and finds the file: the
  search yields a non-empty list whose first element is a produced file of that name.
  The handler then does whatever \<^verbatim>\<open>transfer\<close> of that file does; it raises neither
  an assertion nor an index error of its own.
\<close>

theorem send_handler_cannot_fail:
  assumes "slave_id st = Some i" and "builder st = Some b" and "status b"
    and "fn \<in> fst ` set (files_dict (files b))"
  shows "\<exists>pkg. send_lookup st [JStr fn] = Inr (i, pkg)
             \<and> pkg \<in> set (files b) \<and> filename pkg = fn
             \<and> handle_reply build st (JList [JStr ''SEND'', JStr fn]) evs
                 = (case snd (transfer i pkg evs) of
                      Returned \<Rightarrow> Continue (st\<lparr>request := SENT\<rparr>)
                    | Raised e \<Rightarrow> Raise e
                    | Waiting \<Rightarrow> Stuck)"
proof -
  from assms(4) have "fn \<in> filename ` set (files b)" by (simp add: files_dict_keys)
  then have "filter (\<lambda>f. filename f = fn) (files b) \<noteq> []"
    by (auto simp: filter_empty_conv)
  then obtain pkg more where flt: "filter (\<lambda>f. filename f = fn) (files b) = pkg # more"
    by (cases "filter (\<lambda>f. filename f = fn) (files b)") auto
  then have "pkg \<in> set (filter (\<lambda>f. filename f = fn) (files b))" by simp
  then have mem: "pkg \<in> set (files b)" and name: "filename pkg = fn" by auto
  have lookup: "send_lookup st [JStr fn] = Inr (i, pkg)"
    using assms(1-3) flt by (simp add: send_lookup_def)
  have "handle_reply build st (JList [JStr ''SEND'', JStr fn]) evs
                 = (case snd (transfer i pkg evs) of
                      Returned \<Rightarrow> Continue (st\<lparr>request := SENT\<rparr>)
                    | Raised e \<Rightarrow> Raise e
                    | Waiting \<Rightarrow> Stuck)"
    by (simp add: handle_reply_def unpack_head_def lookup)
  with lookup mem name show ?thesis by blast
qed

theorem send_handler_cannot_fail_witness:
  "slave_id built_slave = Some 1
   \<and> builder built_slave = Some (example_build (JStr ''foo'') (JStr ''0.1''))
   \<and> status (example_build (JStr ''foo'') (JStr ''0.1''))
   \<and> filename example_wheel
        \<in> fst ` set (files_dict (files (example_build (JStr ''foo'') (JStr ''0.1''))))
   \<and> send_lookup built_slave [JStr (filename example_wheel)] = Inr (1, example_wheel)"
proof -
  let ?b = "example_build (JStr ''foo'') (JStr ''0.1'')"
  have h1: "slave_id built_slave = Some 1" and h2: "builder built_slave = Some ?b"
    by (simp_all add: built_slave_def)
  have h3: "status ?b" by (simp add: example_build_def)
  have h4: "filename example_wheel \<in> fst ` set (files_dict (files ?b))"
    by (simp add: example_build_def files_dict_def)
  from send_handler_cannot_fail [OF h1 h2 h3 h4]
  have "send_lookup built_slave [JStr (filename example_wheel)] = Inr (1, example_wheel)"
    by (auto simp: example_build_def)
  with h1 h2 h3 h4 show ?thesis by blast
qed

section \<open>Properties of the index scribe\<close>

lemma to_json_fails_iff:
  "(to_json v = Inl TypeError \<longleftrightarrow> \<not> serializable v) \<and> (\<forall>e. to_json v = Inl e \<longrightarrow> e = TypeError)"
  "(to_json_list vs = Inl TypeError \<longleftrightarrow> \<not> serializable_list vs) \<and> (\<forall>e. to_json_list vs = Inl e \<longrightarrow> e = TypeError)"
  "(to_json_items kvs = Inl TypeError \<longleftrightarrow> \<not> serializable_items kvs) \<and> (\<forall>e. to_json_items kvs = Inl e \<longrightarrow> e = TypeError)"
  by (induction v and vs and kvs rule: to_json_to_json_list_to_json_items.induct)
    (auto split: sum.splits)

lemma lookup_fields_missing:
  "\<exists>f \<in> set names. map_of st f = None \<Longrightarrow>
   \<exists>f \<in> set names. map_of st f = None \<and> lookup_fields st names = Inl (KeyError f)"
proof (induction names)
  case Nil
  then show ?case by simp
next
  case (Cons a names)
  show ?case
  proof (cases "map_of st a")
    case None
    then show ?thesis by simp
  next
    case (Some v)
    with Cons.prems have "\<exists>f \<in> set names. map_of st f = None" by auto
    from Cons.IH [OF this] Some show ?thesis by auto
  qed
qed

lemma to_json_list_pairs:
  "to_json_list (map (\<lambda>(name, n). PTuple [PStr name, PInt n]) s)
     = Inr (map (\<lambda>(name, n). JList [JStr name, JInt n]) s)"
  by (induction s) auto

lemma from_json_list_pairs:
  "from_json_list (map (\<lambda>(name, n). JList [JStr name, JInt n]) s)
     = map (\<lambda>(name, n). PList [PStr name, PInt n]) s"
  by (induction s) auto

text \<open>
  Claim C3. With a fresh temporary path: a \<^verbatim>\<open>HOME\<close> message whose stats lack one of
  the fields packages_built, files_count, downloads_last_month fails with a
  \<^verbatim>\<open>KeyError\<close> for such a field, and a \<^verbatim>\<open>SEARCH\<close> message with a value that cannot
  be serialised fails with \<^verbatim>\<open>TypeError\<close>. In both cases the target file
  (index.html, packages.json) is at no moment other than it was before, and the tree
  afterwards is the tree before: a file that was absent is absent afterwards, and
  nothing partial is published.
\<close>

theorem failed_index_write_publishes_nothing:
  assumes "fs tmp = None" and "tmp \<noteq> ''index.html''" and "tmp \<noteq> ''packages.json''"
  shows "((\<exists>f \<in> set homepage_fields. map_of st f = None) \<longrightarrow>
            (\<exists>f \<in> set homepage_fields.
               snd (handle_index_msg layout tmp (HOME st) fs) = Some (KeyError f))
          \<and> (\<forall>t \<in> set (fst (handle_index_msg layout tmp (HOME st) fs)).
               t ''index.html'' = fs ''index.html'')
          \<and> last (fst (handle_index_msg layout tmp (HOME st) fs)) = fs)
       \<and> (\<not> serializable s \<longrightarrow>
            snd (handle_index_msg layout tmp (SEARCH s) fs) = Some TypeError
          \<and> (\<forall>t \<in> set (fst (handle_index_msg layout tmp (SEARCH s) fs)).
               t ''packages.json'' = fs ''packages.json'')
          \<and> last (fst (handle_index_msg layout tmp (SEARCH s) fs)) = fs)"
proof -
  have restore: "fs(tmp := None) = fs"
    using assms(1) by (simp add: fun_upd_idem)
  have home: "(\<exists>f \<in> set homepage_fields.
               snd (handle_index_msg layout tmp (HOME st) fs) = Some (KeyError f))
          \<and> (\<forall>t \<in> set (fst (handle_index_msg layout tmp (HOME st) fs)).
               t ''index.html'' = fs ''index.html'')
          \<and> last (fst (handle_index_msg layout tmp (HOME st) fs)) = fs"
    if "\<exists>f \<in> set homepage_fields. map_of st f = None"
  proof -
    from lookup_fields_missing [OF that] obtain f
      where "f \<in> set homepage_fields" and "lookup_fields st homepage_fields = Inl (KeyError f)"
      by blast
    then show ?thesis
      using assms(2) restore by (auto simp: write_homepage_def atomic_replace_def)
  qed
  have search: "snd (handle_index_msg layout tmp (SEARCH s) fs) = Some TypeError
          \<and> (\<forall>t \<in> set (fst (handle_index_msg layout tmp (SEARCH s) fs)).
               t ''packages.json'' = fs ''packages.json'')
          \<and> last (fst (handle_index_msg layout tmp (SEARCH s) fs)) = fs"
    if "\<not> serializable s"
  proof -
    from that have "to_json s = Inl TypeError" by (simp add: to_json_fails_iff)
    then show ?thesis
      using assms(3) restore by (auto simp: write_search_index_def atomic_replace_def)
  qed
  from home search show ?thesis by blast
qed

theorem failed_index_write_publishes_nothing_witness:
  "empty_tree ''tmp0'' = None
   \<and> snd (handle_index_msg blank_layout ''tmp0'' (HOME []) empty_tree)
       = Some (KeyError ''packages_built'')
   \<and> last (fst (handle_index_msg blank_layout ''tmp0'' (HOME []) empty_tree)) ''index.html''
       = None
   \<and> \<not> serializable complex_search
   \<and> snd (handle_index_msg blank_layout ''tmp0'' (SEARCH complex_search) empty_tree)
       = Some TypeError
   \<and> last (fst (handle_index_msg blank_layout ''tmp0'' (SEARCH complex_search) empty_tree))
        ''packages.json'' = None"
proof -
  have h1: "empty_tree ''tmp0'' = None" by (simp add: empty_tree_def)
  have h2: "''tmp0'' \<noteq> ''index.html''" and h3: "''tmp0'' \<noteq> ''packages.json''"
    by simp_all
  have m: "\<exists>f \<in> set homepage_fields. map_of [] f = None"
    by (auto simp: homepage_fields_def)
  have c: "\<not> serializable complex_search" by (simp add: complex_search_def)
  have k: "snd (handle_index_msg blank_layout ''tmp0'' (HOME []) empty_tree)
             = Some (KeyError ''packages_built'')"
    by (simp add: write_homepage_def atomic_replace_def homepage_fields_def)
  from failed_index_write_publishes_nothing
    [where fs = empty_tree and tmp = "''tmp0''" and st = "[]" and layout = blank_layout
       and s = complex_search, OF h1 h2 h3]
    m c
  have "last (fst (handle_index_msg blank_layout ''tmp0'' (HOME []) empty_tree)) = empty_tree"
    and "snd (handle_index_msg blank_layout ''tmp0'' (SEARCH complex_search) empty_tree)
           = Some TypeError"
    and "last (fst (handle_index_msg blank_layout ''tmp0'' (SEARCH complex_search) empty_tree))
           = empty_tree"
    by blast+
  with h1 c k show ?thesis by (simp add: empty_tree_def)
qed

text \<open>
  Claim C4. For every list s of (name, count) pairs, \<^verbatim>\<open>SEARCH s\<close> succeeds and leaves
  in packages.json the array of the two-element arrays [name, count] in the order of
  s; parsing the file gives back s with each pair as a two-element list.
\<close>

theorem search_index_roundtrip:
  "case handle_index_msg layout tmp (SEARCH (search_pairs s)) fs of (states, err) \<Rightarrow>
     err = None
   \<and> last states ''packages.json''
       = Some (Json (JList (map (\<lambda>(name, n). JList [JStr name, JInt n]) s)))
   \<and> json_load (last states ''packages.json'')
       = Inr (PList (map (\<lambda>(name, n). PList [PStr name, PInt n]) s))"
  by (simp add: write_search_index_def atomic_replace_def search_pairs_def to_json_list_pairs
      json_load_def from_json_list_pairs)

theorem search_index_roundtrip_witness:
  "json_load (last (fst (handle_index_msg blank_layout ''tmp0''
       (SEARCH (search_pairs [(''foo'', 10), (''bar'', 1)])) empty_tree)) ''packages.json'')
     = Inr (PList [PList [PStr ''foo'', PInt 10], PList [PStr ''bar'', PInt 1]])"
  using search_index_roundtrip [where layout = blank_layout and tmp = "''tmp0''"
      and s = "[(''foo'', 10), (''bar'', 1)]" and fs = empty_tree]
  by (auto split: prod.splits)

end
